theory Spec2Isabelle
  imports Complex_Main
begin

section \<open>Data model\<close>

text \<open>
  The bot of \<^verbatim>\<open>tg_bot.py\<close> is a conversation of three handlers over a remote store
  reached by HTTP. The conversation states are the four integers of
  \<^verbatim>\<open>START, HANDLE_MENU, HANDLE_CART, WAITING_EMAIL = range(4)\<close>.
\<close>

datatype state = START | HANDLE_MENU | HANDLE_CART | WAITING_EMAIL

text \<open>
  Entities of the remote store, as the JSON the client reads. A field read with
  \<^verbatim>\<open>.get(key, default)\<close> is an option (None: the key is absent); a field read with
  \<^verbatim>\<open>[key]\<close> is mandatory: every entity of the store carries its \<^verbatim>\<open>documentId\<close>.
  Numbers are Python numbers read from JSON, taken here as exact reals.
  Python \<^verbatim>\<open>str\<close> is \<^typ>\<open>string\<close>, restricted to ASCII.
\<close>

datatype image_data = ImageList "string list" | ImageDict "string option"

record product =
  p_documentId :: string
  p_name :: "string option"
  p_price :: "real option"
  p_description :: "string option"
  p_image :: "image_data option"

text \<open>
  A cart. A cart without \<^verbatim>\<open>documentId\<close> and a cart whose \<^verbatim>\<open>documentId\<close> is the empty
  string are the same to the code (both are falsy, and the default of the \<^verbatim>\<open>.get\<close> in
  \<^verbatim>\<open>show_cart\<close> is the empty string), so the field is a string. The \<^verbatim>\<open>telegram_id\<close> is
  \<^verbatim>\<open>str(chat_id)\<close>; \<^verbatim>\<open>str\<close> is injective on integers, so the integer itself is kept.
\<close>

record cart =
  c_documentId :: string
  c_telegram_id :: int

text \<open>A cart line (\<^verbatim>\<open>cart-products\<close>), with its product relation populated.\<close>

record item =
  i_documentId :: string
  i_cart :: string
  i_product :: "product option"
  i_quantity :: "real option"

record client =
  cl_id :: nat
  cl_email :: string
  cl_telegram_id :: int
  cl_Name :: "string option"

subsection \<open>Views\<close>

text \<open>
  The texts of the bot are Russian literals with emoji; they are kept symbolic, one
  constructor per literal (in the order they appear in the source), with the
  interpolated values as arguments.
\<close>

datatype msg =
    CartLoadError                \<comment> \<open>"cart loading error"\<close>
  | EmptyCart                    \<comment> \<open>"your cart is empty"\<close>
  | CartListing "(string \<times> real \<times> real \<times> real) list" real
      \<comment> \<open>"your cart:", one line name, total_quantity, price, total_price per group, "total"\<close>
  | CatalogUnavailable           \<comment> \<open>"products are temporarily unavailable"\<close>
  | ChooseProduct                \<comment> \<open>"choose a product:"\<close>
  | ProductNotFound              \<comment> \<open>"product not found"\<close>
  | ProductCard string real string  \<comment> \<open>caption: title, price, description\<close>
  | Added                        \<comment> \<open>"product added to the cart"\<close>
  | AddError                     \<comment> \<open>"adding failed"\<close>
  | Removed                      \<comment> \<open>"product removed from the cart"\<close>
  | RemoveError                  \<comment> \<open>"removal failed"\<close>
  | OrderPlaced                  \<comment> \<open>"order placed, thank you; a manager will contact you"\<close>
  | EmailPrompt                  \<comment> \<open>"enter your email to place the order:"\<close>
  | InvalidEmail                 \<comment> \<open>"enter a correct email"\<close>
  | ThanksForOrder string        \<comment> \<open>"thank you for the order, your email (...) is saved"\<close>
  | SaveFailed                   \<comment> \<open>"could not save your data, try later"\<close>
  | EmailCancelled               \<comment> \<open>"email input cancelled"\<close>

datatype label =
    Title string                 \<comment> \<open>a product's name, cut to 30 characters\<close>
  | CartButton                   \<comment> \<open>"cart"\<close>
  | BackToProducts               \<comment> \<open>"back to the products"\<close>
  | RemoveButton string          \<comment> \<open>"remove <name>"\<close>
  | PayButton                    \<comment> \<open>"pay"\<close>
  | BackToMenu                   \<comment> \<open>"to the menu"\<close>
  | AddToCart                    \<comment> \<open>"add to the cart"\<close>
  | CancelButton                 \<comment> \<open>"cancel"\<close>

text \<open>An \<^verbatim>\<open>InlineKeyboardButton\<close> is its caption and its \<^verbatim>\<open>callback_data\<close>.\<close>

type_synonym button = "label \<times> string"
type_synonym keyboard = "button list list"

text \<open>The calls made to the messaging transport.\<close>

datatype action =
    SendMessage int msg "keyboard option"
  | EditMessageText int int msg "keyboard option"
  | DeleteMessage int int
  | SendPhoto int string msg keyboard
  | Answer "msg option"
  | ReplyText msg

subsection \<open>The world outside the bot\<close>

text \<open>The HTTP requests the client functions issue.\<close>

datatype request =
    GET_carts int
  | POST_carts int
  | GET_cart_products string
  | POST_cart_products string string real
  | DELETE_cart_products string
  | GET_products
  | GET_products_by string
  | GET_clients int
  | PUT_clients nat
  | POST_clients
  | GET_image string

text \<open>
  The result of a transport call that the source guards with \<^verbatim>\<open>try\<close>: done, a
  \<^verbatim>\<open>BadRequest\<close> whose text says the message to edit was not found, or another failure.
\<close>

datatype tg_result = Done | EditTargetGone | OtherFailure

text \<open>
  The world: the remote store (products, carts, cart lines, clients, the counter
  its fresh identifiers come from), the base URL of \<^verbatim>\<open>bot_data\<close>, the fate of the
  coming HTTP requests (\<open>False\<close>: the request raises a \<^verbatim>\<open>RequestException\<close>; an
  exhausted list: every further request goes through) and of the coming guarded
  transport calls, and the traces of the requests issued and of the transport calls
  performed.
\<close>

record world =
  products :: "product list"
  carts :: "cart list"
  cart_products :: "item list"
  clients :: "client list"
  next_id :: nat
  api_url :: string
  outcomes :: "bool list"
  tg_outcomes :: "tg_result list"
  requests :: "request list"
  sent :: "action list"

section \<open>The HTTP boundary\<close>

text \<open>
  One request: it is recorded, and the head of \<open>outcomes\<close> says whether it raises.
  A request that raises leaves the store as it is.
\<close>

definition http :: "request \<Rightarrow> world \<Rightarrow> bool \<times> world" where
  "http rq w =
     (case outcomes w of
        [] \<Rightarrow> (True, w\<lparr>requests := requests w @ [rq]\<rparr>)
      | ok # rest \<Rightarrow> (ok, w\<lparr>outcomes := rest, requests := requests w @ [rq]\<rparr>))"

text \<open>The store names a new entity by its counter, written in decimal.\<close>

fun decimal :: "nat \<Rightarrow> string" where
  "decimal n =
     (if n < 10 then [char_of (48 + n)]
      else decimal (n div 10) @ [char_of (48 + n mod 10)])"

declare decimal.simps [simp del]

definition fresh_id :: "nat \<Rightarrow> string" where
  "fresh_id n = ''doc'' @ decimal n"

definition get_or_create_cart :: "int \<Rightarrow> world \<Rightarrow> cart option \<times> world" where
  "get_or_create_cart telegram_id w =
     (case http (GET_carts telegram_id) w of (ok, w1) \<Rightarrow>
        if \<not> ok then (None, w1)
        else
          (case filter (\<lambda>c. c_telegram_id c = telegram_id) (carts w1) of
             c # _ \<Rightarrow> (Some c, w1)
           | [] \<Rightarrow>
               (case http (POST_carts telegram_id) w1 of (ok2, w2) \<Rightarrow>
                  if \<not> ok2 then (None, w2)
                  else
                    let c = \<lparr>c_documentId = fresh_id (next_id w2), c_telegram_id = telegram_id\<rparr>
                    in (Some c, w2\<lparr>carts := carts w2 @ [c], next_id := Suc (next_id w2)\<rparr>))))"

definition get_cart_items :: "string \<Rightarrow> world \<Rightarrow> item list \<times> world" where
  "get_cart_items cart_documentId w =
     (case http (GET_cart_products cart_documentId) w of (ok, w1) \<Rightarrow>
        if \<not> ok then ([], w1)
        else (filter (\<lambda>i. i_cart i = cart_documentId) (cart_products w1), w1))"

definition find_product :: "string \<Rightarrow> product list \<Rightarrow> product option" where
  "find_product document_id ps =
     (case filter (\<lambda>p. p_documentId p = document_id) ps of [] \<Rightarrow> None | p # _ \<Rightarrow> Some p)"

definition add_to_cart :: "string \<Rightarrow> string \<Rightarrow> real \<Rightarrow> world \<Rightarrow> item option \<times> world" where
  "add_to_cart cart_documentId product_documentId quantity w =
     (case http (POST_cart_products cart_documentId product_documentId quantity) w of (ok, w1) \<Rightarrow>
        if \<not> ok then (None, w1)
        else
          let i = \<lparr>i_documentId = fresh_id (next_id w1), i_cart = cart_documentId,
                   i_product = find_product product_documentId (products w1),
                   i_quantity = Some quantity\<rparr>
          in (Some i, w1\<lparr>cart_products := cart_products w1 @ [i], next_id := Suc (next_id w1)\<rparr>))"

text \<open>
  \<^verbatim>\<open>DELETE /api/cart-products/{document_id}\<close>: the store deletes the cart line of that
  identifier; when it has none, it answers 404 and \<^verbatim>\<open>raise_for_status\<close> raises.
\<close>

definition remove_from_cart :: "string \<Rightarrow> int \<Rightarrow> world \<Rightarrow> bool \<times> world" where
  "remove_from_cart document_id telegram_id w =
     (case http (DELETE_cart_products document_id) w of (ok, w1) \<Rightarrow>
        if \<not> ok then (False, w1)
        else if document_id \<in> set (map i_documentId (cart_products w1))
        then (True, w1\<lparr>cart_products := filter (\<lambda>i. i_documentId i \<noteq> document_id) (cart_products w1)\<rparr>)
        else (False, w1))"

definition fetch_products :: "world \<Rightarrow> product list \<times> world" where
  "fetch_products w =
     (case http GET_products w of (ok, w1) \<Rightarrow>
        if \<not> ok then ([], w1) else (products w1, w1))"

definition get_product_details :: "string \<Rightarrow> world \<Rightarrow> product option \<times> world" where
  "get_product_details document_id w =
     (case http (GET_products_by document_id) w of (ok, w1) \<Rightarrow>
        if \<not> ok then (None, w1) else (find_product document_id (products w1), w1))"

definition save_client_to_cms :: "string \<Rightarrow> int \<Rightarrow> string \<Rightarrow> world \<Rightarrow> client option \<times> world" where
  "save_client_to_cms email telegram_id name w =
     (case http (GET_clients telegram_id) w of (ok, w1) \<Rightarrow>
        if \<not> ok then (None, w1)
        else
          let existing_clients = filter (\<lambda>c. cl_telegram_id c = telegram_id) (clients w1);
              Name = (if name \<noteq> [] then Some name else None)
          in (case existing_clients of
                e # _ \<Rightarrow>
                  (case http (PUT_clients (cl_id e)) w1 of (ok2, w2) \<Rightarrow>
                     if \<not> ok2 then (None, w2)
                     else
                       let upd = (\<lambda>c. c\<lparr>cl_email := email, cl_telegram_id := telegram_id,
                                         cl_Name := (case Name of None \<Rightarrow> cl_Name c | Some n \<Rightarrow> Some n)\<rparr>)
                       in (Some (upd e),
                           w2\<lparr>clients := map (\<lambda>c. if cl_id c = cl_id e then upd c else c) (clients w2)\<rparr>))
              | [] \<Rightarrow>
                  (case http POST_clients w1 of (ok2, w2) \<Rightarrow>
                     if \<not> ok2 then (None, w2)
                     else
                       let c = \<lparr>cl_id = next_id w2, cl_email = email,
                                cl_telegram_id = telegram_id, cl_Name = Name\<rparr>
                       in (Some c, w2\<lparr>clients := clients w2 @ [c], next_id := Suc (next_id w2)\<rparr>))))"

section \<open>The messaging transport\<close>

text \<open>
  A transport call is recorded in \<open>sent\<close>. Calls outside any \<^verbatim>\<open>try\<close> are taken to go
  through; a call inside a \<^verbatim>\<open>try\<close> first reads its fate from \<open>tg_outcomes\<close>.
\<close>

definition emit :: "action \<Rightarrow> world \<Rightarrow> world" where
  "emit a w = w\<lparr>sent := sent w @ [a]\<rparr>"

definition guarded :: "world \<Rightarrow> tg_result \<times> world" where
  "guarded w =
     (case tg_outcomes w of
        [] \<Rightarrow> (Done, w)
      | r # rest \<Rightarrow> (r, w\<lparr>tg_outcomes := rest\<rparr>))"

definition safe_edit_message :: "int \<Rightarrow> int \<Rightarrow> msg \<Rightarrow> keyboard option \<Rightarrow> world \<Rightarrow> world" where
  "safe_edit_message chat_id message_id text reply_markup w =
     (case guarded w of (r, w1) \<Rightarrow>
        (case r of
           Done \<Rightarrow> emit (EditMessageText chat_id message_id text reply_markup) w1
         | EditTargetGone \<Rightarrow> emit (SendMessage chat_id text reply_markup) w1
         | OtherFailure \<Rightarrow> w1))"

section \<open>Strings\<close>

definition startswith :: "string \<Rightarrow> string \<Rightarrow> bool" where
  "startswith s p = (take (length p) s = p)"

text \<open>\<^verbatim>\<open>s.split("_", 1)[1]\<close>, for a string that has an underscore.\<close>

definition after_underscore :: "string \<Rightarrow> string" where
  "after_underscore s = drop 1 (dropWhile (\<lambda>c. c \<noteq> CHR ''_'') s)"

text \<open>The default name of a product without one (the Cyrillic literal, transliterated).\<close>

definition no_name :: string where
  "no_name = ''Bez nazvaniya''"

definition no_description :: string where
  "no_description = ''Opisanie otsutstvuet''"

definition is_space :: "char \<Rightarrow> bool" where
  "is_space c = (let n = (of_char c :: nat) in (9 \<le> n \<and> n \<le> 13) \<or> (28 \<le> n \<and> n \<le> 32))"

definition strip :: "string \<Rightarrow> string" where
  "strip s = rev (dropWhile is_space (rev (dropWhile is_space s)))"

text \<open>
  The pattern of \<^verbatim>\<open>handle_email\<close>, \<^verbatim>\<open>[\w\.-]+@[\w\.-]+\.\w+\<close>: a sequence of single
  characters and of one-or-more repetitions of a character class. \<^verbatim>\<open>re.match\<close> anchors
  the pattern at the start of the string only, and backtracks.
\<close>

datatype atom = Word | WordDotDash | Lit char

datatype token = One atom | Plus atom

definition is_word :: "char \<Rightarrow> bool" where
  "is_word c = (c \<in> set ''abcdefghijklmnopqrstuvwxyzABCDEFGHIJKLMNOPQRSTUVWXYZ0123456789_'')"

fun accepts :: "atom \<Rightarrow> char \<Rightarrow> bool" where
  "accepts Word c = is_word c"
| "accepts WordDotDash c = (is_word c \<or> c = CHR ''.'' \<or> c = CHR ''-'')"
| "accepts (Lit l) c = (c = l)"

fun re_match :: "token list \<Rightarrow> string \<Rightarrow> bool" where
  "re_match [] s = True"
| "re_match (t # ts) [] = False"
| "re_match (One a # ts) (c # cs) = (accepts a c \<and> re_match ts cs)"
| "re_match (Plus a # ts) (c # cs) =
     (accepts a c \<and> (re_match (Plus a # ts) cs \<or> re_match ts cs))"

definition email_pattern :: "token list" where
  "email_pattern =
     [Plus WordDotDash, One (Lit CHR ''@''), Plus WordDotDash, One (Lit CHR ''.''), Plus Word]"

section \<open>Views\<close>

definition build_main_menu :: "world \<Rightarrow> keyboard option \<times> world" where
  "build_main_menu w =
     (case fetch_products w of (prods, w1) \<Rightarrow>
        if prods = [] then (None, w1)
        else
          (Some (map (\<lambda>p. [(Title (take 30 (case p_name p of None \<Rightarrow> no_name | Some n \<Rightarrow> n)),
                             ''product_'' @ p_documentId p)]) prods
                 @ [[(CartButton, ''cart'')]]),
           w1))"

text \<open>
  \<^verbatim>\<open>grouped_items\<close> of \<^verbatim>\<open>show_cart\<close>: a dictionary from product identifier to a group,
  iterated in insertion order, so an association list in the order of first insertion.
\<close>

record cart_group =
  g_name :: string
  g_price :: real
  total_quantity :: real
  total_price :: real

definition item_pid :: "item \<Rightarrow> string" where
  "item_pid it = (case i_product it of None \<Rightarrow> [] | Some p \<Rightarrow> p_documentId p)"

definition item_name :: "item \<Rightarrow> string" where
  "item_name it =
     (case i_product it of None \<Rightarrow> no_name
      | Some p \<Rightarrow> (case p_name p of None \<Rightarrow> no_name | Some n \<Rightarrow> n))"

definition item_price :: "item \<Rightarrow> real" where
  "item_price it =
     (case i_product it of None \<Rightarrow> 0
      | Some p \<Rightarrow> (case p_price p of None \<Rightarrow> 0 | Some x \<Rightarrow> x))"

definition item_quantity :: "item \<Rightarrow> real" where
  "item_quantity it = (case i_quantity it of None \<Rightarrow> 0 | Some q \<Rightarrow> q)"

text \<open>The body of the loop \<^verbatim>\<open>for item in items\<close>.\<close>

definition add_item :: "(string \<times> cart_group) list \<Rightarrow> item \<Rightarrow> (string \<times> cart_group) list" where
  "add_item grouped_items it =
     (let pid = item_pid it;
          grouped1 =
            (if pid \<notin> set (map fst grouped_items)
             then grouped_items @
                    [(pid, \<lparr>g_name = item_name it, g_price = item_price it,
                            total_quantity = 0, total_price = 0\<rparr>)]
             else grouped_items);
          quantity = item_quantity it
      in map (\<lambda>(k, g).
                if k = pid
                then (k, g\<lparr>total_quantity := total_quantity g + quantity,
                           total_price := total_price g + quantity * g_price g\<rparr>)
                else (k, g)) grouped1)"

definition group_items :: "item list \<Rightarrow> (string \<times> cart_group) list" where
  "group_items items = foldl add_item [] items"

text \<open>
  The text and the keyboard of \<^verbatim>\<open>show_cart\<close>. In the loop over the groups, \<^verbatim>\<open>item\<close> is
  the variable the first loop has left behind: the last element of \<^verbatim>\<open>items\<close>.
\<close>

definition cart_view :: "item list \<Rightarrow> msg \<times> keyboard" where
  "cart_view items =
     (if items = [] then (EmptyCart, [[(BackToProducts, ''back_to_menu'')]])
      else
        let grouped_items = group_items items;
            item = last items;
            total = sum_list (map (\<lambda>(pid, g). total_price g) grouped_items)
        in (CartListing
              (map (\<lambda>(pid, g). (g_name g, total_quantity g, g_price g, total_price g)) grouped_items)
              total,
            map (\<lambda>(pid, g). [(RemoveButton (g_name g), ''remove_'' @ i_documentId item)]) grouped_items
            @ [[(PayButton, ''checkout'')], [(BackToMenu, ''back_to_menu'')]]))"

definition truthy_id :: "int option \<Rightarrow> bool" where
  "truthy_id message_id = (case message_id of None \<Rightarrow> False | Some m \<Rightarrow> m \<noteq> 0)"

definition show_cart :: "int \<Rightarrow> int option \<Rightarrow> world \<Rightarrow> world" where
  "show_cart chat_id message_id w =
     (case get_or_create_cart chat_id w of (cart, w1) \<Rightarrow>
        (case cart of
           None \<Rightarrow> emit (SendMessage chat_id CartLoadError None) w1
         | Some c \<Rightarrow>
             (case get_cart_items (c_documentId c) w1 of (items, w2) \<Rightarrow>
                (case cart_view items of (text, keyboard) \<Rightarrow>
                   if truthy_id message_id
                   then
                     (case guarded w2 of (r, w3) \<Rightarrow>
                        if r = Done
                        then emit (EditMessageText chat_id (the message_id) text (Some keyboard)) w3
                        else emit (SendMessage chat_id text (Some keyboard)) w3)
                   else emit (SendMessage chat_id text (Some keyboard)) w2))))"

section \<open>Handlers\<close>

definition start :: "int \<Rightarrow> world \<Rightarrow> state \<times> world" where
  "start chat_id w =
     (case build_main_menu w of (reply_markup, w1) \<Rightarrow>
        (case reply_markup of
           None \<Rightarrow> (HANDLE_MENU, emit (SendMessage chat_id CatalogUnavailable None) w1)
         | Some kb \<Rightarrow> (HANDLE_MENU, emit (SendMessage chat_id ChooseProduct (Some kb)) w1)))"

text \<open>The \<^verbatim>\<open>image_url\<close> of the product branch of \<^verbatim>\<open>handle_menu\<close>.\<close>

definition image_url :: "string \<Rightarrow> product \<Rightarrow> string option" where
  "image_url api p =
     (case p_image p of
        Some (ImageList (u # _)) \<Rightarrow> Some (api @ u)
      | Some (ImageDict (Some u)) \<Rightarrow> if u \<noteq> [] then Some (api @ u) else None
      | _ \<Rightarrow> None)"

text \<open>
  The product branch of \<^verbatim>\<open>handle_menu\<close> once the product is found: the card is
  built, the old message is deleted (best effort), and the card is sent as a photo
  when there is an image and both its download and \<^verbatim>\<open>send_photo\<close> go through, as a
  message otherwise.
\<close>

definition product_card :: "int \<Rightarrow> int \<Rightarrow> string \<Rightarrow> product \<Rightarrow> world \<Rightarrow> world" where
  "product_card chat_id message_id document_id p w =
     (let title = (case p_name p of None \<Rightarrow> no_name | Some n \<Rightarrow> n);
          price = (case p_price p of None \<Rightarrow> 0 | Some x \<Rightarrow> x);
          description = (case p_description p of None \<Rightarrow> no_description | Some d \<Rightarrow> d);
          caption = ProductCard title price description;
          reply_markup = [[(AddToCart, ''add_'' @ document_id)],
                          [(BackToProducts, ''back_to_menu'')]];
          url = image_url (api_url w) p
      in (case guarded w of (r, w1) \<Rightarrow>
            let w2 = (if r = Done then emit (DeleteMessage chat_id message_id) w1 else w1)
            in (case url of
                  None \<Rightarrow> emit (SendMessage chat_id caption (Some reply_markup)) w2
                | Some u \<Rightarrow>
                    if u = [] then emit (SendMessage chat_id caption (Some reply_markup)) w2
                    else
                      (case http (GET_image u) w2 of (ok, w3) \<Rightarrow>
                         if \<not> ok then emit (SendMessage chat_id caption (Some reply_markup)) w3
                         else
                           (case guarded w3 of (r2, w4) \<Rightarrow>
                              if r2 = Done then emit (SendPhoto chat_id u caption reply_markup) w4
                              else emit (SendMessage chat_id caption (Some reply_markup)) w4)))))"

definition handle_menu :: "int \<Rightarrow> int \<Rightarrow> string \<Rightarrow> world \<Rightarrow> state \<times> world" where
  "handle_menu chat_id message_id callback_data w0 =
     (let w = emit (Answer None) w0 in
      if startswith callback_data ''product_'' then
        (let document_id = after_underscore callback_data in
         case get_product_details document_id w of (product, w1) \<Rightarrow>
           (case product of
              None \<Rightarrow> (HANDLE_MENU, emit (SendMessage chat_id ProductNotFound None) w1)
            | Some p \<Rightarrow> (HANDLE_MENU, product_card chat_id message_id document_id p w1)))
      else if startswith callback_data ''add_'' then
        (let product_id = after_underscore callback_data in
         case get_or_create_cart chat_id w of (cart, w1) \<Rightarrow>
           (case cart of
              None \<Rightarrow> (HANDLE_MENU, emit (Answer (Some AddError)) w1)
            | Some c \<Rightarrow>
                if c_documentId c \<noteq> [] then
                  (case add_to_cart (c_documentId c) product_id 1 w1 of (added, w2) \<Rightarrow>
                     (HANDLE_MENU, emit (Answer (Some Added)) w2))
                else (HANDLE_MENU, emit (Answer (Some AddError)) w1)))
      else if callback_data = ''cart'' then (HANDLE_CART, show_cart chat_id None w)
      else if startswith callback_data ''remove_'' then
        (let item_id = after_underscore callback_data in
         case remove_from_cart item_id chat_id w of (removed, w1) \<Rightarrow>
           (HANDLE_MENU,
            show_cart chat_id (Some message_id)
              (emit (Answer (Some (if removed then Removed else RemoveError))) w1)))
      else if callback_data = ''checkout'' then
        (case get_or_create_cart chat_id w of (cart, w1) \<Rightarrow>
           (case cart of
              None \<Rightarrow> (HANDLE_MENU, w1)
            | Some c \<Rightarrow>
                if c_documentId c \<noteq> [] then
                  (case remove_from_cart (c_documentId c) chat_id w1 of (removed, w2) \<Rightarrow>
                     start chat_id (emit (SendMessage chat_id OrderPlaced None) w2))
                else (HANDLE_MENU, w1)))
      else if callback_data = ''back_to_menu'' then
        (case build_main_menu w of (reply_markup, w1) \<Rightarrow>
           (case reply_markup of
              None \<Rightarrow> (HANDLE_MENU, emit (SendMessage chat_id CatalogUnavailable None) w1)
            | Some kb \<Rightarrow>
                (case guarded w1 of (r, w2) \<Rightarrow>
                   (HANDLE_MENU,
                    emit (SendMessage chat_id ChooseProduct (Some kb))
                      (if r = Done then emit (DeleteMessage chat_id message_id) w2 else w2)))))
      else (HANDLE_MENU, w))"

definition handle_cart :: "int \<Rightarrow> int \<Rightarrow> string \<Rightarrow> world \<Rightarrow> state \<times> world" where
  "handle_cart chat_id message_id callback_data w0 =
     (let w = emit (Answer None) w0 in
      if startswith callback_data ''remove_'' then
        (let item_id = after_underscore callback_data in
         case remove_from_cart item_id chat_id w of (removed, w1) \<Rightarrow>
           (HANDLE_CART,
            show_cart chat_id (Some message_id)
              (emit (Answer (Some (if removed then Removed else RemoveError))) w1)))
      else if callback_data = ''checkout'' then
        (WAITING_EMAIL,
         safe_edit_message chat_id message_id EmailPrompt
           (Some [[(CancelButton, ''cancel_email'')]]) w)
      else if callback_data = ''back_to_menu'' then
        (case build_main_menu w of (reply_markup, w1) \<Rightarrow>
           (case reply_markup of
              None \<Rightarrow> (HANDLE_MENU, emit (SendMessage chat_id CatalogUnavailable None) w1)
            | Some kb \<Rightarrow>
                (case guarded w1 of (r, w2) \<Rightarrow>
                   (HANDLE_MENU,
                    emit (SendMessage chat_id ChooseProduct (Some kb))
                      (if r = Done then emit (DeleteMessage chat_id message_id) w2 else w2)))))
      else (HANDLE_CART, w))"

text \<open>
  An update is a text message (chat, text, first and last name of the sender) or a
  button press (chat, identifier of the message the button is under, payload).
\<close>

datatype update =
    Message int string string "string option"
  | CallbackQuery int int string

text \<open>The \<^verbatim>\<open>name\<close> of \<^verbatim>\<open>handle_email\<close>: first and last name when there is a last name.\<close>

definition sender_name :: "string \<Rightarrow> string option \<Rightarrow> string" where
  "sender_name first_name last_name =
     (case last_name of
        None \<Rightarrow> first_name
      | Some l \<Rightarrow> if l \<noteq> [] then first_name @ '' '' @ l else first_name)"

definition handle_email :: "update \<Rightarrow> world \<Rightarrow> state \<times> world" where
  "handle_email upd w =
     (case upd of
        Message chat_id text first_name last_name \<Rightarrow>
          (let email = strip text in
           if \<not> re_match email_pattern email
           then (WAITING_EMAIL, emit (ReplyText InvalidEmail) w)
           else
             let name = sender_name first_name last_name
             in (case save_client_to_cms email chat_id name w of (saved, w1) \<Rightarrow>
                   (case saved of
                      Some cl \<Rightarrow>
                        (case get_or_create_cart chat_id w1 of (cart, w2) \<Rightarrow>
                           let w3 = (case cart of
                                       None \<Rightarrow> w2
                                     | Some c \<Rightarrow>
                                         if c_documentId c \<noteq> []
                                         then snd (remove_from_cart (c_documentId c) chat_id w2)
                                         else w2)
                           in start chat_id (emit (ReplyText (ThanksForOrder email)) w3))
                    | None \<Rightarrow> start chat_id (emit (ReplyText SaveFailed) w1))))
      | CallbackQuery chat_id message_id data \<Rightarrow>
          (let w1 = emit (Answer None) w in
           if data = ''cancel_email''
           then start chat_id (emit (SendMessage chat_id EmailCancelled None) w1)
           else (WAITING_EMAIL, w1)))"

section \<open>The conversation\<close>

text \<open>
  The \<^verbatim>\<open>ConversationHandler\<close> of the main program. An event is the command
  \<^verbatim>\<open>/name\<close> in a chat, or an update that is not a command. A session that has not
  started has no state; \<^verbatim>\<open>/start\<close> is the entry point and the fallback of every state;
  an event no handler takes leaves the session as it is.
\<close>

datatype event = Command int string | Update update

definition conversation :: "state option \<Rightarrow> event \<Rightarrow> world \<Rightarrow> state option \<times> world" where
  "conversation st ev w =
     (case ev of
        Command chat_id name \<Rightarrow>
          if name = ''start''
          then (case start chat_id w of (s, w1) \<Rightarrow> (Some s, w1))
          else (st, w)
      | Update upd \<Rightarrow>
          (case st of
             Some HANDLE_MENU \<Rightarrow>
               (case upd of
                  CallbackQuery chat_id message_id data \<Rightarrow>
                    (case handle_menu chat_id message_id data w of (s, w1) \<Rightarrow> (Some s, w1))
                | Message chat_id text first_name last_name \<Rightarrow> (st, w))
           | Some HANDLE_CART \<Rightarrow>
               (case upd of
                  CallbackQuery chat_id message_id data \<Rightarrow>
                    (case handle_cart chat_id message_id data w of (s, w1) \<Rightarrow> (Some s, w1))
                | Message chat_id text first_name last_name \<Rightarrow> (st, w))
           | Some WAITING_EMAIL \<Rightarrow>
               (case handle_email upd w of (s, w1) \<Rightarrow> (Some s, w1))
           | _ \<Rightarrow> (st, w)))"

fun run :: "state option \<Rightarrow> event list \<Rightarrow> world \<Rightarrow> state option \<times> world" where
  "run st [] w = (st, w)"
| "run st (ev # evs) w = (case conversation st ev w of (st1, w1) \<Rightarrow> run st1 evs w1)"

text \<open>A session is live once it is in one of the three states the handlers return.\<close>

definition live :: "state option \<Rightarrow> bool" where
  "live st = (st = Some HANDLE_MENU \<or> st = Some HANDLE_CART \<or> st = Some WAITING_EMAIL)"

section \<open>The grouping, in the words of the specification\<close>

text \<open>
  The cart view groups the lines by product identifier, one group per identifier in
  the order the identifiers first appear. A group carries the name and the unit
  price of its first line, the sum of the quantities of its lines, and the sum of
  quantity times the group's unit price over its lines.
\<close>

fun first_occurrences :: "'a list \<Rightarrow> 'a list" where
  "first_occurrences [] = []"
| "first_occurrences (x # xs) = x # filter (\<lambda>y. y \<noteq> x) (first_occurrences xs)"

definition lines_of :: "string \<Rightarrow> item list \<Rightarrow> item list" where
  "lines_of pid items = filter (\<lambda>i. item_pid i = pid) items"

definition group_of :: "string \<Rightarrow> item list \<Rightarrow> cart_group" where
  "group_of pid items =
     (let ls = lines_of pid items
      in \<lparr>g_name = item_name (hd ls), g_price = item_price (hd ls),
          total_quantity = sum_list (map item_quantity ls),
          total_price = sum_list (map (\<lambda>l. item_quantity l * item_price (hd ls)) ls)\<rparr>)"

definition grouped_by_product :: "item list \<Rightarrow> (string \<times> cart_group) list" where
  "grouped_by_product items =
     map (\<lambda>pid. (pid, group_of pid items)) (first_occurrences (map item_pid items))"

text \<open>The requests that delete.\<close>

fun is_delete :: "request \<Rightarrow> bool" where
  "is_delete (DELETE_cart_products document_id) = True"
| "is_delete rq = False"

text \<open>The events that are the command \<^verbatim>\<open>/start\<close>.\<close>

fun is_start :: "event \<Rightarrow> bool" where
  "is_start (Command chat_id name) = (name = ''start'')"
| "is_start (Update upd) = False"

section \<open>Example data\<close>

definition fish :: product where
  "fish = \<lparr>p_documentId = ''A'', p_name = Some ''fish'', p_price = Some 10,
            p_description = None, p_image = None\<rparr>"

definition crab :: product where
  "crab = \<lparr>p_documentId = ''B'', p_name = Some ''crab'', p_price = Some 20,
            p_description = None, p_image = None\<rparr>"


definition line :: "string \<Rightarrow> product \<Rightarrow> real \<Rightarrow> item" where
  "line document_id p q =
     \<lparr>i_documentId = document_id, i_cart = ''c1'', i_product = Some p, i_quantity = Some q\<rparr>"

text \<open>
  A store with two products, the cart \<open>c1\<close> of user 7 and two lines of fish in it;
  every request goes through.
\<close>

definition shop :: world where
  "shop = \<lparr>products = [fish, crab],
            carts = [\<lparr>c_documentId = ''c1'', c_telegram_id = 7\<rparr>],
            cart_products = [line ''l1'' fish 2, line ''l2'' fish 3],
            clients = [], next_id = 0, api_url = ''http://cms'',
            outcomes = [], tg_outcomes = [], requests = [], sent = []\<rparr>"

text \<open>A store without products whose next request fails.\<close>

definition offline :: world where
  "offline = shop\<lparr>products := [], outcomes := [False]\<rparr>"

text \<open>The same store when its next request fails.\<close>

definition flaky :: world where
  "flaky = shop\<lparr>outcomes := [False]\<rparr>"

section \<open>Properties\<close>

subsection \<open>The state each handler returns\<close>

lemma fst_start: "fst (start chat_id w) = HANDLE_MENU"
  by (simp add: start_def split: prod.splits option.splits)

lemma fst_handle_menu:
  "fst (handle_menu chat_id message_id d w) = (if d = ''cart'' then HANDLE_CART else HANDLE_MENU)"
  by (auto simp add: handle_menu_def Let_def fst_start startswith_def
      split: prod.splits option.splits)

lemma fst_handle_cart:
  "fst (handle_cart chat_id message_id d w) =
     (if startswith d ''remove_'' then HANDLE_CART
      else if d = ''checkout'' then WAITING_EMAIL
      else if d = ''back_to_menu'' then HANDLE_MENU
      else HANDLE_CART)"
  by (auto simp add: handle_cart_def Let_def split: prod.splits option.splits)

lemma fst_handle_email:
  "fst (handle_email upd w) =
     (case upd of
        Message chat_id text first_name last_name \<Rightarrow>
          if re_match email_pattern (strip text) then HANDLE_MENU else WAITING_EMAIL
      | CallbackQuery chat_id message_id d \<Rightarrow>
          if d = ''cancel_email'' then HANDLE_MENU else WAITING_EMAIL)"
  by (auto simp add: handle_email_def Let_def fst_start
      split: update.splits prod.splits option.splits)

lemma fst_conversation:
  "fst (conversation st ev w) =
     (case ev of
        Command chat_id name \<Rightarrow> if name = ''start'' then Some (fst (start chat_id w)) else st
      | Update upd \<Rightarrow>
          (case st of
             Some HANDLE_MENU \<Rightarrow>
               (case upd of
                  CallbackQuery chat_id message_id d \<Rightarrow>
                    Some (fst (handle_menu chat_id message_id d w))
                | Message chat_id text first_name last_name \<Rightarrow> st)
           | Some HANDLE_CART \<Rightarrow>
               (case upd of
                  CallbackQuery chat_id message_id d \<Rightarrow>
                    Some (fst (handle_cart chat_id message_id d w))
                | Message chat_id text first_name last_name \<Rightarrow> st)
           | Some WAITING_EMAIL \<Rightarrow> Some (fst (handle_email upd w))
           | _ \<Rightarrow> st))"
  by (simp add: conversation_def
      split: event.splits option.splits state.splits update.splits prod.splits)

lemma live_simps:
  "live (Some HANDLE_MENU)" "live (Some HANDLE_CART)" "live (Some WAITING_EMAIL)"
  "\<not> live None" "\<not> live (Some START)"
  by (simp_all add: live_def)

lemma handlers_live:
  "live (Some (fst (start chat_id w)))"
  "live (Some (fst (handle_menu chat_id message_id d w)))"
  "live (Some (fst (handle_cart chat_id message_id d w)))"
  "live (Some (fst (handle_email upd w)))"
  by (simp_all add: live_def fst_start fst_handle_menu fst_handle_cart fst_handle_email
      split: update.splits)

lemma conversation_live:
  assumes "live st"
  shows "live (fst (conversation st ev w))"
proof -
  from assms consider "st = Some HANDLE_MENU" | "st = Some HANDLE_CART" | "st = Some WAITING_EMAIL"
    by (auto simp add: live_def)
  then show ?thesis
    by cases
      (simp_all add: fst_conversation handlers_live live_simps split: event.splits update.splits)
qed

lemma run_live: "live st \<Longrightarrow> live (fst (run st evs w))"
proof (induction evs arbitrary: st w)
  case Nil
  then show ?case by simp
next
  case (Cons ev evs)
  have "live (fst (conversation st ev w))"
    using Cons.prems by (rule conversation_live)
  then show ?case
    using Cons.IH by (simp split: prod.splits) (metis fst_conv)
qed

lemma run_append:
  "run st (xs @ ys) w = (case run st xs w of (st1, w1) \<Rightarrow> run st1 ys w1)"
  by (induction xs arbitrary: st w) (simp_all split: prod.splits)

lemma conversation_start_live: "live (fst (conversation st (Command chat_id ''start'') w))"
  by (simp add: fst_conversation handlers_live)

lemma conversation_idle_or_live:
  assumes "st = None \<or> live st"
  shows "fst (conversation st ev w) = None \<or> live (fst (conversation st ev w))"
proof (cases "st = None")
  case True
  then show ?thesis
    by (simp add: fst_conversation handlers_live split: event.splits)
next
  case False
  with assms have "live st" by simp
  then show ?thesis by (simp add: conversation_live)
qed

lemma run_idle_or_live:
  "st = None \<or> live st \<Longrightarrow> fst (run st evs w) = None \<or> live (fst (run st evs w))"
proof (induction evs arbitrary: st w)
  case Nil
  then show ?case by simp
next
  case (Cons ev evs)
  obtain st1 w1 where c: "conversation st ev w = (st1, w1)"
    by (cases "conversation st ev w")
  have "st1 = None \<or> live st1"
    using conversation_idle_or_live [OF Cons.prems, of ev w] c by simp
  then show ?case
    using Cons.IH [of st1 w1] by (simp add: c)
qed

lemma run_idle: "filter is_start evs = [] \<Longrightarrow> run None evs w = (None, w)"
proof (induction evs arbitrary: w)
  case Nil
  show ?case by simp
next
  case (Cons ev evs)
  from Cons.prems have ev: "\<not> is_start ev" and rest: "filter is_start evs = []"
    by (simp_all split: if_splits)
  from ev have "conversation None ev w = (None, w)"
    by (cases ev) (simp_all add: conversation_def)
  then show ?case
    using Cons.IH [OF rest] by simp
qed

text \<open>
  Claim C5, as amended. A session has no state until its first \<^verbatim>\<open>/start\<close>: the
  conversation takes no other event before it. From the first \<^verbatim>\<open>/start\<close> on, whatever
  events came before and come after it and whatever the store and the network do,
  the session is in one of \<open>HANDLE_MENU\<close>, \<open>HANDLE_CART\<close>, \<open>WAITING_EMAIL\<close>; after any
  sequence of events it has no state or one of these three, never \<open>START\<close>; and each
  handler returns one of these three.
\<close>

theorem state_always_defined:
  "fst (run None (pre @ Command chat_id ''start'' # evs) w)
      \<in> {Some HANDLE_MENU, Some HANDLE_CART, Some WAITING_EMAIL}
   \<and> fst (run None evs w) \<in> {None, Some HANDLE_MENU, Some HANDLE_CART, Some WAITING_EMAIL}
   \<and> (filter is_start evs = [] \<longrightarrow> fst (run None evs w) = None)
   \<and> fst (start chat_id w) \<in> {HANDLE_MENU, HANDLE_CART, WAITING_EMAIL}
   \<and> fst (handle_menu chat_id message_id d w) \<in> {HANDLE_MENU, HANDLE_CART, WAITING_EMAIL}
   \<and> fst (handle_cart chat_id message_id d w) \<in> {HANDLE_MENU, HANDLE_CART, WAITING_EMAIL}
   \<and> fst (handle_email upd w) \<in> {HANDLE_MENU, HANDLE_CART, WAITING_EMAIL}"
proof -
  obtain st1 w1 where p: "run None pre w = (st1, w1)"
    by (cases "run None pre w")
  obtain st2 w2 where c: "conversation st1 (Command chat_id ''start'') w1 = (st2, w2)"
    by (cases "conversation st1 (Command chat_id ''start'') w1")
  have "live st2"
    using conversation_start_live [of st1 chat_id w1] c by simp
  then have "live (fst (run st2 evs w2))"
    by (rule run_live)
  then have "live (fst (run None (pre @ Command chat_id ''start'' # evs) w))"
    by (simp add: run_append p c)
  then have a: "fst (run None (pre @ Command chat_id ''start'' # evs) w)
      \<in> {Some HANDLE_MENU, Some HANDLE_CART, Some WAITING_EMAIL}"
    by (simp add: live_def)
  have "fst (run None evs w) = None \<or> live (fst (run None evs w))"
    by (rule run_idle_or_live) simp
  then have b: "fst (run None evs w) \<in> {None, Some HANDLE_MENU, Some HANDLE_CART, Some WAITING_EMAIL}"
    by (auto simp add: live_def)
  have e: "fst (handle_email upd w) \<in> {HANDLE_MENU, HANDLE_CART, WAITING_EMAIL}"
    by (simp add: fst_handle_email split: update.splits)
  have n: "filter is_start evs = [] \<longrightarrow> fst (run None evs w) = None"
    by (simp add: run_idle)
  from a b n e show ?thesis
    by (simp add: fst_start fst_handle_menu fst_handle_cart)
qed

theorem state_always_defined_witness:
  "filter is_start [Update (Message 7 ''hello'' ''Ann'' None), Update (CallbackQuery 7 1 ''cart'')] = []
   \<and> fst (run None [Update (Message 7 ''hello'' ''Ann'' None), Update (CallbackQuery 7 1 ''cart'')] shop)
       = None
   \<and> fst (run None ([Update (CallbackQuery 7 1 ''cart'')] @ Command 7 ''start'' # []) shop)
       \<in> {Some HANDLE_MENU, Some HANDLE_CART, Some WAITING_EMAIL}"
proof -
  note idle = state_always_defined
    [where evs = "[Update (Message 7 ''hello'' ''Ann'' None), Update (CallbackQuery 7 1 ''cart'')]"
       and w = shop]
  note started = state_always_defined
    [where pre = "[Update (CallbackQuery 7 1 ''cart'')]" and chat_id = 7 and evs = "[]" and w = shop]
  have none: "filter is_start
      [Update (Message 7 ''hello'' ''Ann'' None), Update (CallbackQuery 7 1 ''cart'')] = []"
    by simp
  from idle none
  have "fst (run None [Update (Message 7 ''hello'' ''Ann'' None), Update (CallbackQuery 7 1 ''cart'')] shop)
       = None"
    by blast
  with none started show ?thesis by blast
qed

text \<open>
  A button press that reaches the bot before any \<^verbatim>\<open>/start\<close> leaves the session without
  a state.
\<close>

theorem no_session_before_start_counterexample:
  "fst (run None [Update (CallbackQuery 7 1 ''cart'')] shop) = None
   \<and> fst (run None [Update (CallbackQuery 7 1 ''cart'')] shop)
       \<notin> {Some HANDLE_MENU, Some HANDLE_CART, Some WAITING_EMAIL}"
  by (simp add: conversation_def)

subsection \<open>Payloads no branch takes\<close>

text \<open>
  Claim C10. A button press whose payload none of the branches of the handler of
  the current state takes is answered and nothing else: the handler returns the
  state it serves, and the world changes by the answer to the callback query only,
  so the store is untouched and no request is issued.
\<close>

theorem unmatched_payload_ignored:
  "(\<not> startswith d ''product_'' \<and> \<not> startswith d ''add_'' \<and> d \<noteq> ''cart''
      \<and> \<not> startswith d ''remove_'' \<and> d \<noteq> ''checkout'' \<and> d \<noteq> ''back_to_menu''
     \<longrightarrow> handle_menu chat_id message_id d w = (HANDLE_MENU, w\<lparr>sent := sent w @ [Answer None]\<rparr>))
   \<and> (\<not> startswith d ''remove_'' \<and> d \<noteq> ''checkout'' \<and> d \<noteq> ''back_to_menu''
     \<longrightarrow> handle_cart chat_id message_id d w = (HANDLE_CART, w\<lparr>sent := sent w @ [Answer None]\<rparr>))
   \<and> (d \<noteq> ''cancel_email''
     \<longrightarrow> handle_email (CallbackQuery chat_id message_id d) w
           = (WAITING_EMAIL, w\<lparr>sent := sent w @ [Answer None]\<rparr>))"
  by (simp add: handle_menu_def handle_cart_def handle_email_def emit_def)

theorem unmatched_payload_ignored_witness:
  "\<not> startswith ''noop'' ''product_'' \<and> \<not> startswith ''noop'' ''add_'' \<and> ''noop'' \<noteq> ''cart''
   \<and> \<not> startswith ''noop'' ''remove_'' \<and> ''noop'' \<noteq> ''checkout'' \<and> ''noop'' \<noteq> ''back_to_menu''
   \<and> ''noop'' \<noteq> ''cancel_email''
   \<and> handle_menu 7 1 ''noop'' shop = (HANDLE_MENU, shop\<lparr>sent := sent shop @ [Answer None]\<rparr>)
   \<and> handle_cart 7 1 ''noop'' shop = (HANDLE_CART, shop\<lparr>sent := sent shop @ [Answer None]\<rparr>)
   \<and> handle_email (CallbackQuery 7 1 ''noop'') shop
       = (WAITING_EMAIL, shop\<lparr>sent := sent shop @ [Answer None]\<rparr>)"
  using unmatched_payload_ignored [of "''noop''" 7 1 shop]
  by (simp add: startswith_def)

subsection \<open>The store and the traces under the client functions\<close>

lemma http_store [simp]:
  "products (snd (http rq w)) = products w"
  "carts (snd (http rq w)) = carts w"
  "cart_products (snd (http rq w)) = cart_products w"
  "clients (snd (http rq w)) = clients w"
  "sent (snd (http rq w)) = sent w"
  "requests (snd (http rq w)) = requests w @ [rq]"
  by (simp_all add: http_def split: list.splits)

lemma fetch_products_sent [simp]: "sent (snd (fetch_products w)) = sent w"
  by (simp add: fetch_products_def split: prod.splits) (metis http_store(5) snd_conv)

subsection \<open>An empty catalog\<close>

text \<open>
  Claim C7. When \<^verbatim>\<open>fetch_products\<close> returns the empty list, \<^verbatim>\<open>build_main_menu\<close>
  returns None, and \<^verbatim>\<open>start\<close> sends the unavailability message and nothing else and
  returns \<open>HANDLE_MENU\<close>. \<^verbatim>\<open>fetch_products\<close> returns the empty list when its request
  raises (the exception stops in the client function) and when the store has no
  product.
\<close>

theorem empty_catalog_unavailable:
  "(fst (fetch_products w) = [] \<longrightarrow>
      fst (build_main_menu w) = None
      \<and> fst (start chat_id w) = HANDLE_MENU
      \<and> sent (snd (start chat_id w)) = sent w @ [SendMessage chat_id CatalogUnavailable None])
   \<and> (outcomes w = False # rest \<longrightarrow> fst (fetch_products w) = [])
   \<and> (products w = [] \<longrightarrow> fst (fetch_products w) = [])"
proof -
  have a: "fst (build_main_menu w) = None" if "fst (fetch_products w) = []"
    using that by (cases "fetch_products w") (simp add: build_main_menu_def)
  have b: "sent (snd (start chat_id w)) = sent w @ [SendMessage chat_id CatalogUnavailable None]"
    if "fst (fetch_products w) = []"
  proof -
    obtain ps w1 where f: "fetch_products w = (ps, w1)" by (cases "fetch_products w")
    with that have "ps = []" by simp
    moreover have "sent w1 = sent w" using fetch_products_sent [of w] f by simp
    ultimately show ?thesis
      by (simp add: start_def build_main_menu_def f emit_def)
  qed
  have c: "fst (fetch_products w) = []" if "outcomes w = False # rest"
    using that by (simp add: fetch_products_def http_def)
  have d: "fst (fetch_products w) = []" if "products w = []"
    using that by (simp add: fetch_products_def http_def split: list.splits)
  show ?thesis using a b c d by (simp add: fst_start)
qed

theorem empty_catalog_unavailable_witness:
  "fst (fetch_products offline) = [] \<and> outcomes offline = [False] \<and> products offline = []
   \<and> fst (build_main_menu offline) = None
   \<and> fst (start 7 offline) = HANDLE_MENU
   \<and> sent (snd (start 7 offline)) = sent offline @ [SendMessage 7 CatalogUnavailable None]"
  using empty_catalog_unavailable [of offline 7 "[]"]
  by (simp add: offline_def shop_def)

subsection \<open>More on the store and the traces\<close>

lemma emit_fields [simp]:
  "products (emit a w) = products w"
  "carts (emit a w) = carts w"
  "cart_products (emit a w) = cart_products w"
  "clients (emit a w) = clients w"
  "requests (emit a w) = requests w"
  "outcomes (emit a w) = outcomes w"
  "sent (emit a w) = sent w @ [a]"
  by (simp_all add: emit_def)

lemma guarded_fields [simp]:
  "products (snd (guarded w)) = products w"
  "carts (snd (guarded w)) = carts w"
  "cart_products (snd (guarded w)) = cart_products w"
  "clients (snd (guarded w)) = clients w"
  "requests (snd (guarded w)) = requests w"
  "outcomes (snd (guarded w)) = outcomes w"
  "sent (snd (guarded w)) = sent w"
  by (simp_all add: guarded_def split: list.splits)

lemma http_reliable [simp]:
  "outcomes w = [] \<Longrightarrow> fst (http rq w)"
  "outcomes w = [] \<Longrightarrow> outcomes (snd (http rq w)) = []"
  by (simp_all add: http_def)

lemma get_or_create_cart_fields [simp]:
  "products (snd (get_or_create_cart t w)) = products w"
  "cart_products (snd (get_or_create_cart t w)) = cart_products w"
  "clients (snd (get_or_create_cart t w)) = clients w"
  "sent (snd (get_or_create_cart t w)) = sent w"
  by (simp_all add: get_or_create_cart_def case_prod_beta Let_def split: list.splits)

lemma remove_from_cart_fields [simp]:
  "products (snd (remove_from_cart d t w)) = products w"
  "carts (snd (remove_from_cart d t w)) = carts w"
  "clients (snd (remove_from_cart d t w)) = clients w"
  "sent (snd (remove_from_cart d t w)) = sent w"
  "requests (snd (remove_from_cart d t w)) = requests w @ [DELETE_cart_products d]"
  by (simp_all add: remove_from_cart_def case_prod_beta)

lemma fetch_products_fields [simp]:
  "products (snd (fetch_products w)) = products w"
  "carts (snd (fetch_products w)) = carts w"
  "cart_products (snd (fetch_products w)) = cart_products w"
  "clients (snd (fetch_products w)) = clients w"
  "requests (snd (fetch_products w)) = requests w @ [GET_products]"
  by (simp_all add: fetch_products_def case_prod_beta)

lemma build_main_menu_fields [simp]:
  "products (snd (build_main_menu w)) = products w"
  "carts (snd (build_main_menu w)) = carts w"
  "cart_products (snd (build_main_menu w)) = cart_products w"
  "clients (snd (build_main_menu w)) = clients w"
  "requests (snd (build_main_menu w)) = requests w @ [GET_products]"
  by (simp_all add: build_main_menu_def case_prod_beta)

lemma start_fields [simp]:
  "products (snd (start c w)) = products w"
  "carts (snd (start c w)) = carts w"
  "cart_products (snd (start c w)) = cart_products w"
  "clients (snd (start c w)) = clients w"
  "requests (snd (start c w)) = requests w @ [GET_products]"
  by (simp_all add: start_def case_prod_beta split: option.splits)

lemma save_client_requests:
  "\<exists>rs. requests (snd (save_client_to_cms email t name w)) = requests w @ GET_clients t # rs"
  by (simp add: save_client_to_cms_def case_prod_beta Let_def split: list.splits)

lemma save_client_fields [simp]:
  "products (snd (save_client_to_cms email t name w)) = products w"
  "carts (snd (save_client_to_cms email t name w)) = carts w"
  "cart_products (snd (save_client_to_cms email t name w)) = cart_products w"
  by (simp_all add: save_client_to_cms_def case_prod_beta Let_def split: list.splits)

lemma save_client_reliable:
  assumes "outcomes w = []"
  shows "fst (save_client_to_cms email t name w) \<noteq> None
     \<and> (\<exists>cl \<in> set (clients (snd (save_client_to_cms email t name w))).
            cl_telegram_id cl = t \<and> cl_email cl = email)"
proof (cases "filter (\<lambda>c. cl_telegram_id c = t) (clients w)")
  case Nil
  with assms show ?thesis
    by (simp add: save_client_to_cms_def case_prod_beta Let_def)
next
  case (Cons e es)
  define upd :: "client \<Rightarrow> client" where
    "upd = (\<lambda>c. c\<lparr>cl_email := email, cl_telegram_id := t,
                    cl_Name := (case (if name \<noteq> [] then Some name else None) of
                                  None \<Rightarrow> cl_Name c | Some n \<Rightarrow> Some n)\<rparr>)"
  have "e \<in> set (filter (\<lambda>c. cl_telegram_id c = t) (clients w))"
    using Cons by simp
  then have e_in: "e \<in> set (clients w)"
    by simp
  have res: "fst (save_client_to_cms email t name w) \<noteq> None"
    and eq: "clients (snd (save_client_to_cms email t name w))
               = map (\<lambda>c. if cl_id c = cl_id e then upd c else c) (clients w)"
    using assms Cons by (simp_all add: save_client_to_cms_def case_prod_beta Let_def upd_def)
  have "upd e \<in> set (map (\<lambda>c. if cl_id c = cl_id e then upd c else c) (clients w))"
    unfolding set_map using e_in by (rule rev_image_eqI) simp
  moreover have "cl_telegram_id (upd e) = t \<and> cl_email (upd e) = email"
    by (simp add: upd_def)
  ultimately show ?thesis
    using res eq by auto
qed


subsection \<open>Grouping the cart lines\<close>

lemma set_first_occurrences [simp]: "set (first_occurrences ys) = set ys"
  by (induction ys) auto

lemma first_occurrences_snoc:
  "first_occurrences (ys @ [y]) =
     (if y \<in> set ys then first_occurrences ys else first_occurrences ys @ [y])"
  by (induction ys) auto

lemma lines_of_snoc:
  "lines_of pid (xs @ [x]) = (if item_pid x = pid then lines_of pid xs @ [x] else lines_of pid xs)"
  by (simp add: lines_of_def)

lemma lines_of_nonempty: "pid \<in> item_pid ` set xs \<Longrightarrow> lines_of pid xs \<noteq> []"
  by (auto simp add: lines_of_def filter_empty_conv)

lemma lines_of_empty: "pid \<notin> item_pid ` set xs \<Longrightarrow> lines_of pid xs = []"
  by (auto simp add: lines_of_def filter_empty_conv)

lemma group_of_other:
  "item_pid x \<noteq> k \<Longrightarrow> group_of k (xs @ [x]) = group_of k xs"
  by (simp add: group_of_def lines_of_snoc)

lemma group_of_new:
  "item_pid x \<notin> item_pid ` set xs \<Longrightarrow>
   group_of (item_pid x) (xs @ [x]) =
     \<lparr>g_name = item_name x, g_price = item_price x,
      total_quantity = item_quantity x, total_price = item_quantity x * item_price x\<rparr>"
  by (simp add: group_of_def lines_of_snoc lines_of_empty)

lemma group_of_more:
  "item_pid x \<in> item_pid ` set xs \<Longrightarrow>
   group_of (item_pid x) (xs @ [x]) =
     (group_of (item_pid x) xs)
       \<lparr>total_quantity := total_quantity (group_of (item_pid x) xs) + item_quantity x,
        total_price := total_price (group_of (item_pid x) xs)
                         + item_quantity x * g_price (group_of (item_pid x) xs)\<rparr>"
  using lines_of_nonempty [of "item_pid x" xs]
  by (simp add: group_of_def lines_of_snoc Let_def)

lemma add_item_grouped:
  "add_item (grouped_by_product xs) x = grouped_by_product (xs @ [x])"
proof (cases "item_pid x \<in> item_pid ` set xs")
  case True
  have "map ((\<lambda>(k, g). if k = item_pid x
              then (k, g\<lparr>total_quantity := total_quantity g + item_quantity x,
                         total_price := total_price g + item_quantity x * g_price g\<rparr>)
              else (k, g)) \<circ> (\<lambda>pid. (pid, group_of pid xs))) (first_occurrences (map item_pid xs))
        = map (\<lambda>pid. (pid, group_of pid (xs @ [x]))) (first_occurrences (map item_pid xs))"
    using True by (intro map_cong refl) (simp add: group_of_other group_of_more)
  with True show ?thesis
    by (simp add: add_item_def grouped_by_product_def first_occurrences_snoc Let_def o_def)
next
  case False
  have "map ((\<lambda>(k, g). if k = item_pid x
              then (k, g\<lparr>total_quantity := total_quantity g + item_quantity x,
                         total_price := total_price g + item_quantity x * g_price g\<rparr>)
              else (k, g)) \<circ> (\<lambda>pid. (pid, group_of pid xs))) (first_occurrences (map item_pid xs))
        = map (\<lambda>pid. (pid, group_of pid (xs @ [x]))) (first_occurrences (map item_pid xs))"
  proof (intro map_cong refl)
    fix k
    assume "k \<in> set (first_occurrences (map item_pid xs))"
    then have "k \<in> item_pid ` set xs" by simp
    with False have "item_pid x \<noteq> k" by auto
    then show "((\<lambda>(k, g). if k = item_pid x
              then (k, g\<lparr>total_quantity := total_quantity g + item_quantity x,
                         total_price := total_price g + item_quantity x * g_price g\<rparr>)
              else (k, g)) \<circ> (\<lambda>pid. (pid, group_of pid xs))) k = (k, group_of k (xs @ [x]))"
      by (auto simp add: group_of_other)
  qed
  with False show ?thesis
    by (simp add: add_item_def grouped_by_product_def first_occurrences_snoc Let_def o_def
        group_of_new)
qed

lemma group_items_grouped: "group_items items = grouped_by_product items"
proof (induction items rule: rev_induct)
  case Nil
  show ?case by (simp add: group_items_def grouped_by_product_def)
next
  case (snoc x xs)
  then show ?case
    by (simp add: group_items_def add_item_grouped)
qed








lemma group_items_nonempty: "items \<noteq> [] \<Longrightarrow> group_items items \<noteq> []"
proof -
  assume "items \<noteq> []"
  then have "set (first_occurrences (map item_pid items)) \<noteq> {}" by simp
  then show ?thesis
    unfolding group_items_grouped grouped_by_product_def by (metis map_is_Nil_conv set_empty)
qed

subsection \<open>The cart view\<close>

text \<open>
  Claim C8. For no lines the view is the empty-cart message, and no button of its
  keyboard is the checkout. For at least one line the view lists the groups (there is
  at least one) with their totals, the grand total is the sum of the groups'
  \<open>total_price\<close>, and the keyboard has the checkout button.
\<close>

theorem cart_view_shape:
  "cart_view [] = (EmptyCart, [[(BackToProducts, ''back_to_menu'')]])
   \<and> ''checkout'' \<notin> snd ` set (concat (snd (cart_view [])))
   \<and> (items \<noteq> [] \<longrightarrow>
        fst (cart_view items)
          = CartListing
              (map (\<lambda>(pid, g). (g_name g, total_quantity g, g_price g, total_price g))
                 (group_items items))
              (sum_list (map (\<lambda>(pid, g). total_price g) (group_items items)))
        \<and> group_items items \<noteq> []
        \<and> (PayButton, ''checkout'') \<in> set (concat (snd (cart_view items))))"
  by (simp add: cart_view_def Let_def group_items_nonempty)

theorem cart_view_shape_witness:
  "[line ''l1'' fish 2, line ''l2'' fish 3] \<noteq> []
   \<and> fst (cart_view [line ''l1'' fish 2, line ''l2'' fish 3])
       = CartListing [(''fish'', 5, 10, 50)] 50
   \<and> (PayButton, ''checkout'') \<in> set (concat (snd (cart_view [line ''l1'' fish 2, line ''l2'' fish 3])))"
  using cart_view_shape [of "[line ''l1'' fish 2, line ''l2'' fish 3]"]
  by (simp add: group_items_def add_item_def line_def fish_def item_pid_def item_name_def
      item_price_def item_quantity_def)

text \<open>
  Claim C3. The payload of every remove button is built from \<^verbatim>\<open>item\<close>, the variable
  the grouping loop has left behind, so from the last line of the cart, whatever the
  group of the button. With a line \<open>l1\<close> of fish followed by a line \<open>l2\<close> of crab, the
  button that says it removes the fish carries the crab's line.
\<close>

theorem remove_button_names_last_line:
  "snd (cart_view [line ''l1'' fish 2, line ''l2'' crab 1])
     = [[(RemoveButton ''fish'', ''remove_l2'')], [(RemoveButton ''crab'', ''remove_l2'')],
        [(PayButton, ''checkout'')], [(BackToMenu, ''back_to_menu'')]]"
  by (simp add: cart_view_def group_items_def add_item_def line_def fish_def crab_def item_pid_def
      item_name_def item_price_def item_quantity_def)

text \<open>The definitions a concrete run unfolds.\<close>

lemmas model_defs =
  handle_email_def handle_menu_def handle_cart_def start_def build_main_menu_def fetch_products_def
  save_client_to_cms_def get_or_create_cart_def remove_from_cart_def get_cart_items_def
  http_def emit_def guarded_def sender_name_def startswith_def after_underscore_def
  strip_def is_space_def email_pattern_def is_word_def shop_def flaky_def line_def fish_def crab_def
  no_name_def

subsection \<open>The email step\<close>

lemma save_client_sent [simp]:
  "sent (snd (save_client_to_cms email t name w)) = sent w"
  by (simp add: save_client_to_cms_def case_prod_beta Let_def split: list.splits)

lemma get_or_create_cart_requests:
  "\<exists>rs. requests (snd (get_or_create_cart t w)) = requests w @ rs \<and> filter is_delete rs = []"
  by (simp add: get_or_create_cart_def case_prod_beta Let_def split: list.splits)

lemma start_sent:
  "\<exists>a. sent (snd (start c w)) = sent w @ [a]"
  by (simp add: start_def build_main_menu_def case_prod_beta split: option.splits)

lemma handle_email_valid:
  assumes "re_match email_pattern (strip text)"
  shows "handle_email (Message c text f l) w =
     (case save_client_to_cms (strip text) c (sender_name f l) w of (saved, w1) \<Rightarrow>
        (case saved of
           Some cl \<Rightarrow>
             (case get_or_create_cart c w1 of (cart, w2) \<Rightarrow>
                start c (emit (ReplyText (ThanksForOrder (strip text)))
                  (case cart of
                     None \<Rightarrow> w2
                   | Some k \<Rightarrow> if c_documentId k \<noteq> []
                               then snd (remove_from_cart (c_documentId k) c w2) else w2)))
         | None \<Rightarrow> start c (emit (ReplyText SaveFailed) w1)))"
  using assms by (simp add: handle_email_def Let_def split: prod.splits option.splits)

lemma handle_email_requests:
  assumes "re_match email_pattern (strip text)"
  shows "\<exists>rs. requests (snd (handle_email (Message c text f l) w)) = requests w @ GET_clients c # rs"
proof -
  obtain saved w1 where s: "save_client_to_cms (strip text) c (sender_name f l) w = (saved, w1)"
    by (cases "save_client_to_cms (strip text) c (sender_name f l) w")
  obtain rs1 where r1: "requests w1 = requests w @ GET_clients c # rs1"
    using save_client_requests [of "strip text" c "sender_name f l" w] s by auto
  show ?thesis
  proof (cases saved)
    case None
    then show ?thesis
      by (simp add: handle_email_valid [OF assms] s r1)
  next
    case (Some cl)
    obtain cart w2 where g: "get_or_create_cart c w1 = (cart, w2)"
      by (cases "get_or_create_cart c w1")
    obtain rs2 where r2: "requests w2 = requests w1 @ rs2"
      using get_or_create_cart_requests [of c w1] g by auto
    show ?thesis
      by (simp add: handle_email_valid [OF assms] s Some g r1 r2 split: option.splits)
  qed
qed

lemma handle_email_clients:
  assumes "re_match email_pattern (strip text)" and "outcomes w = []"
  shows "\<exists>cl\<in>set (clients (snd (handle_email (Message c text f l) w))).
           cl_telegram_id cl = c \<and> cl_email cl = strip text"
proof -
  obtain saved w1 where s: "save_client_to_cms (strip text) c (sender_name f l) w = (saved, w1)"
    by (cases "save_client_to_cms (strip text) c (sender_name f l) w")
  from save_client_reliable [OF assms(2), of "strip text" c "sender_name f l"] s
  obtain cl where cl: "saved = Some cl"
    and ex: "\<exists>cl\<in>set (clients w1). cl_telegram_id cl = c \<and> cl_email cl = strip text"
    by auto
  obtain cart w2 where g: "get_or_create_cart c w1 = (cart, w2)"
    by (cases "get_or_create_cart c w1")
  have "clients w2 = clients w1"
    using get_or_create_cart_fields(3) [of c w1] g by simp
  with ex show ?thesis
    by (simp add: handle_email_valid [OF assms(1)] s cl g split: option.splits)
qed

text \<open>
  Claim C6. In \<open>WAITING_EMAIL\<close>, a text that fails the pattern (after \<^verbatim>\<open>strip\<close>) is
  answered by the re-prompt and nothing else, and the state stays \<open>WAITING_EMAIL\<close>.
  A text that passes leads to the upsert of the client record (its first request is
  the lookup of the client by the user's identity, and when no request fails the
  store ends with a client record of that identity and email) and to \<open>HANDLE_MENU\<close>.
  \<^verbatim>\<open>user@example.com\<close> passes and \<^verbatim>\<open>not-an-email\<close> fails.
\<close>

theorem email_check:
  "(\<not> re_match email_pattern (strip text) \<longrightarrow>
      handle_email (Message c text f l) w
        = (WAITING_EMAIL, w\<lparr>sent := sent w @ [ReplyText InvalidEmail]\<rparr>))
   \<and> (re_match email_pattern (strip text) \<longrightarrow>
        fst (handle_email (Message c text f l) w) = HANDLE_MENU
        \<and> (\<exists>rs. requests (snd (handle_email (Message c text f l) w))
                   = requests w @ GET_clients c # rs)
        \<and> (outcomes w = [] \<longrightarrow>
             (\<exists>cl\<in>set (clients (snd (handle_email (Message c text f l) w))).
                cl_telegram_id cl = c \<and> cl_email cl = strip text)))
   \<and> re_match email_pattern (strip ''user@example.com'')
   \<and> \<not> re_match email_pattern (strip ''not-an-email'')"
proof (intro conjI impI)
  assume "\<not> re_match email_pattern (strip text)"
  then show "handle_email (Message c text f l) w
        = (WAITING_EMAIL, w\<lparr>sent := sent w @ [ReplyText InvalidEmail]\<rparr>)"
    by (simp add: handle_email_def emit_def)
next
  assume "re_match email_pattern (strip text)"
  then show "fst (handle_email (Message c text f l) w) = HANDLE_MENU"
    by (simp add: fst_handle_email)
next
  assume "re_match email_pattern (strip text)"
  then show "\<exists>rs. requests (snd (handle_email (Message c text f l) w)) = requests w @ GET_clients c # rs"
    by (rule handle_email_requests)
next
  assume "re_match email_pattern (strip text)" "outcomes w = []"
  then show "\<exists>cl\<in>set (clients (snd (handle_email (Message c text f l) w))).
                cl_telegram_id cl = c \<and> cl_email cl = strip text"
    by (rule handle_email_clients)
next
  show "re_match email_pattern (strip ''user@example.com'')"
    by (simp add: strip_def is_space_def email_pattern_def is_word_def)
next
  show "\<not> re_match email_pattern (strip ''not-an-email'')"
    by (simp add: strip_def is_space_def email_pattern_def is_word_def)
qed

theorem email_check_witness:
  "\<not> re_match email_pattern (strip ''not-an-email'')
   \<and> handle_email (Message 7 ''not-an-email'' ''Ann'' None) shop
       = (WAITING_EMAIL, shop\<lparr>sent := sent shop @ [ReplyText InvalidEmail]\<rparr>)
   \<and> re_match email_pattern (strip ''user@example.com'')
   \<and> outcomes shop = []
   \<and> fst (handle_email (Message 7 ''user@example.com'' ''Ann'' None) shop) = HANDLE_MENU
   \<and> clients (snd (handle_email (Message 7 ''user@example.com'' ''Ann'' None) shop))
       = [\<lparr>cl_id = 0, cl_email = ''user@example.com'', cl_telegram_id = 7, cl_Name = Some ''Ann''\<rparr>]"
proof -
  note bad = email_check [of "''not-an-email''" 7 "''Ann''" None shop]
  note good = email_check [of "''user@example.com''" 7 "''Ann''" None shop]
  have no: "\<not> re_match email_pattern (strip ''not-an-email'')"
    and yes: "re_match email_pattern (strip ''user@example.com'')"
    using good by simp_all
  have stay: "handle_email (Message 7 ''not-an-email'' ''Ann'' None) shop
       = (WAITING_EMAIL, shop\<lparr>sent := sent shop @ [ReplyText InvalidEmail]\<rparr>)"
    using bad [THEN conjunct1] no by (rule mp)
  have menu: "fst (handle_email (Message 7 ''user@example.com'' ''Ann'' None) shop) = HANDLE_MENU"
    using good [THEN conjunct2, THEN conjunct1] yes by simp
  have reliable: "outcomes shop = []"
    by (simp add: shop_def)
  have saved: "clients (snd (handle_email (Message 7 ''user@example.com'' ''Ann'' None) shop))
       = [\<lparr>cl_id = 0, cl_email = ''user@example.com'', cl_telegram_id = 7, cl_Name = Some ''Ann''\<rparr>]"
    by (simp add: model_defs Let_def)
  from no stay yes reliable menu saved show ?thesis by simp
qed

subsection \<open>What a checkout deletes\<close>

text \<open>
  Claim C1. Both checkouts call \<^verbatim>\<open>remove_from_cart\<close> with the document identifier of
  the cart, so the one \<^verbatim>\<open>DELETE\<close> they issue addresses the cart lines collection
  by the identifier of a cart. In the example store, with every request going
  through, the cart \<open>c1\<close> has its two lines after the valid email as before it, and
  after the checkout button of the menu as well.
\<close>

theorem checkout_leaves_lines:
  "fst (handle_email (Message 7 ''user@example.com'' ''Ann'' None) shop) = HANDLE_MENU
   \<and> requests (snd (handle_email (Message 7 ''user@example.com'' ''Ann'' None) shop))
       = [GET_clients 7, POST_clients, GET_carts 7, DELETE_cart_products ''c1'', GET_products]
   \<and> fst (get_cart_items ''c1'' (snd (handle_email (Message 7 ''user@example.com'' ''Ann'' None) shop)))
       = [line ''l1'' fish 2, line ''l2'' fish 3]
   \<and> requests (snd (handle_menu 7 1 ''checkout'' shop))
       = [GET_carts 7, DELETE_cart_products ''c1'', GET_products]
   \<and> fst (get_cart_items ''c1'' (snd (handle_menu 7 1 ''checkout'' shop)))
       = [line ''l1'' fish 2, line ''l2'' fish 3]"
  by (simp add: model_defs Let_def)


subsection \<open>Failing remote calls\<close>

lemma get_or_create_cart_deletes [simp]:
  "filter is_delete (requests (snd (get_or_create_cart t w))) = filter is_delete (requests w)"
  using get_or_create_cart_requests [of t w] by auto

lemma save_client_deletes [simp]:
  "filter is_delete (requests (snd (save_client_to_cms email t name w))) = filter is_delete (requests w)"
  by (simp add: save_client_to_cms_def case_prod_beta Let_def split: list.splits)

lemma get_cart_items_fields [simp]:
  "requests (snd (get_cart_items k w)) = requests w @ [GET_cart_products k]"
  "sent (snd (get_cart_items k w)) = sent w"
  by (simp_all add: get_cart_items_def case_prod_beta)

lemma show_cart_deletes [simp]:
  "filter is_delete (requests (show_cart c mid w)) = filter is_delete (requests w)"
  by (simp add: show_cart_def case_prod_beta split: option.splits)

text \<open>
  With the first request failing, the upsert of a valid email fails, and the state
  \<^verbatim>\<open>handle_email\<close> returns is \<open>HANDLE_MENU\<close>, not \<open>WAITING_EMAIL\<close>.
\<close>

theorem failed_upsert_returns_to_menu_counterexample:
  "fst (save_client_to_cms (strip ''user@example.com'') 7 (sender_name ''Ann'' None) flaky) = None
   \<and> fst (handle_email (Message 7 ''user@example.com'' ''Ann'' None) flaky) = HANDLE_MENU
   \<and> fst (handle_email (Message 7 ''user@example.com'' ''Ann'' None) flaky) \<noteq> WAITING_EMAIL"
  by (simp add: model_defs Let_def)

text \<open>
  Claim C4, as amended. The state a handler returns is the same in every world: it
  depends on the event only, so no failing remote call diverts a transition, and
  the session keeps its state under a failure for the events that keep it anyway.
  In \<open>WAITING_EMAIL\<close>, a valid email whose upsert fails is answered by the
  save-failure message followed by the one message of \<^verbatim>\<open>start\<close>; carts and cart lines
  are unchanged, no delete request is issued, and the state returned is
  \<open>HANDLE_MENU\<close>.
\<close>

theorem failure_keeps_course:
  "fst (start c w) = fst (start c w')
   \<and> fst (handle_menu c m d w) = fst (handle_menu c m d w')
   \<and> fst (handle_cart c m d w) = fst (handle_cart c m d w')
   \<and> fst (handle_email upd w) = fst (handle_email upd w')
   \<and> (re_match email_pattern (strip text)
        \<and> fst (save_client_to_cms (strip text) c (sender_name f l) w) = None \<longrightarrow>
          fst (handle_email (Message c text f l) w) = HANDLE_MENU
          \<and> (\<exists>a. sent (snd (handle_email (Message c text f l) w))
                    = sent w @ [ReplyText SaveFailed, a])
          \<and> carts (snd (handle_email (Message c text f l) w)) = carts w
          \<and> cart_products (snd (handle_email (Message c text f l) w)) = cart_products w
          \<and> filter is_delete (requests (snd (handle_email (Message c text f l) w)))
              = filter is_delete (requests w))"
proof -
  have "fst (handle_email (Message c text f l) w) = HANDLE_MENU
          \<and> (\<exists>a. sent (snd (handle_email (Message c text f l) w))
                    = sent w @ [ReplyText SaveFailed, a])
          \<and> carts (snd (handle_email (Message c text f l) w)) = carts w
          \<and> cart_products (snd (handle_email (Message c text f l) w)) = cart_products w
          \<and> filter is_delete (requests (snd (handle_email (Message c text f l) w)))
              = filter is_delete (requests w)"
    if valid: "re_match email_pattern (strip text)"
      and failed: "fst (save_client_to_cms (strip text) c (sender_name f l) w) = None"
  proof -
    obtain w1 where s: "save_client_to_cms (strip text) c (sender_name f l) w = (None, w1)"
      using failed by (cases "save_client_to_cms (strip text) c (sender_name f l) w") simp
    have w1: "sent w1 = sent w" "carts w1 = carts w" "cart_products w1 = cart_products w"
      "filter is_delete (requests w1) = filter is_delete (requests w)"
      using save_client_sent [of "strip text" c "sender_name f l" w]
        save_client_fields [of "strip text" c "sender_name f l" w]
        save_client_deletes [of "strip text" c "sender_name f l" w] s
      by simp_all
    have h: "handle_email (Message c text f l) w = start c (emit (ReplyText SaveFailed) w1)"
      by (simp add: handle_email_valid [OF valid] s)
    obtain a where "sent (snd (start c (emit (ReplyText SaveFailed) w1)))
        = sent (emit (ReplyText SaveFailed) w1) @ [a]"
      using start_sent by blast
    then have "\<exists>a. sent (snd (handle_email (Message c text f l) w))
                    = sent w @ [ReplyText SaveFailed, a]"
      by (simp add: h w1)
    then show ?thesis
      by (simp add: h w1 fst_start)
  qed
  then show ?thesis
    by (simp add: fst_start fst_handle_menu fst_handle_cart fst_handle_email)
qed

theorem failure_keeps_course_witness:
  "re_match email_pattern (strip ''user@example.com'')
   \<and> fst (save_client_to_cms (strip ''user@example.com'') 7 (sender_name ''Ann'' None) flaky) = None
   \<and> fst (handle_email (Message 7 ''user@example.com'' ''Ann'' None) flaky) = HANDLE_MENU
   \<and> fst (handle_email (Message 7 ''user@example.com'' ''Ann'' None) flaky)
       = fst (handle_email (Message 7 ''user@example.com'' ''Ann'' None) shop)
   \<and> carts (snd (handle_email (Message 7 ''user@example.com'' ''Ann'' None) flaky)) = carts flaky
   \<and> cart_products (snd (handle_email (Message 7 ''user@example.com'' ''Ann'' None) flaky))
       = cart_products flaky"
proof -
  note inst = failure_keeps_course
    [of 7 flaky shop 1 "''noop''" "Message 7 ''user@example.com'' ''Ann'' None"
        "''user@example.com''" "''Ann''" None]
  have valid: "re_match email_pattern (strip ''user@example.com'')"
    by (simp add: strip_def is_space_def email_pattern_def is_word_def)
  have failed: "fst (save_client_to_cms (strip ''user@example.com'') 7 (sender_name ''Ann'' None) flaky) = None"
    by (simp add: save_client_to_cms_def http_def flaky_def shop_def)
  from inst valid failed
  have "fst (handle_email (Message 7 ''user@example.com'' ''Ann'' None) flaky) = HANDLE_MENU"
    and "fst (handle_email (Message 7 ''user@example.com'' ''Ann'' None) flaky)
           = fst (handle_email (Message 7 ''user@example.com'' ''Ann'' None) shop)"
    and "carts (snd (handle_email (Message 7 ''user@example.com'' ''Ann'' None) flaky)) = carts flaky"
    and "cart_products (snd (handle_email (Message 7 ''user@example.com'' ''Ann'' None) flaky))
           = cart_products flaky"
    by blast+
  with valid failed show ?thesis by blast
qed

subsection \<open>Removal and checkout from the menu\<close>

lemma remove_payload:
  assumes "startswith d ''remove_''"
  shows "\<not> startswith d ''product_''" "\<not> startswith d ''add_''" "d \<noteq> ''cart''"
proof -
  from assms have t: "take (length ''remove_'') d = ''remove_''"
    unfolding startswith_def .
  have "take (length ''remove_'') d @ drop (length ''remove_'') d = d"
    by (rule append_take_drop_id)
  then have "''remove_'' @ drop (length ''remove_'') d = d"
    unfolding t .
  then obtain rest where d: "d = ''remove_'' @ rest"
    by (rule that [OF sym])
  show "\<not> startswith d ''product_''" "\<not> startswith d ''add_''" "d \<noteq> ''cart''"
    by (simp_all add: d startswith_def)
qed

lemma handle_menu_remove:
  assumes "startswith d ''remove_''"
  shows "handle_menu c m d w =
     (case remove_from_cart (after_underscore d) c (emit (Answer None) w) of (removed, w1) \<Rightarrow>
        (HANDLE_MENU,
         show_cart c (Some m) (emit (Answer (Some (if removed then Removed else RemoveError))) w1)))"
  using assms remove_payload [OF assms] by (simp add: handle_menu_def Let_def)

lemma handle_menu_checkout:
  "handle_menu c m ''checkout'' w =
     (case get_or_create_cart c (emit (Answer None) w) of (cart, w1) \<Rightarrow>
        (case cart of
           None \<Rightarrow> (HANDLE_MENU, w1)
         | Some k \<Rightarrow>
             if c_documentId k \<noteq> []
             then start c (emit (SendMessage c OrderPlaced None)
                             (snd (remove_from_cart (c_documentId k) c w1)))
             else (HANDLE_MENU, w1)))"
  by (simp add: handle_menu_def Let_def startswith_def case_prod_beta split: prod.splits option.splits)

text \<open>
  Claim C9, as amended. \<^verbatim>\<open>handle_menu\<close> takes the payloads \<^verbatim>\<open>remove_<id>\<close> and
  \<^verbatim>\<open>checkout\<close> too. A removal calls \<^verbatim>\<open>remove_from_cart\<close> on the identifier after the
  underscore, answers with its result and calls \<^verbatim>\<open>show_cart\<close> on the message of the
  button: one delete request is added to the trace. A checkout first gets or
  creates the cart. When this yields a cart with a non-empty identifier, the
  checkout issues one delete request on that identifier, sends the order
  confirmation and runs \<^verbatim>\<open>start\<close>, which adds one message. When it yields no cart, or
  a cart without identifier, the checkout issues no delete request and sends
  nothing beyond the answer to the callback query. The state returned is
  \<open>HANDLE_MENU\<close> in every case.
\<close>

theorem menu_remove_and_checkout:
  "(startswith d ''remove_'' \<longrightarrow>
      handle_menu c m d w =
        (case remove_from_cart (after_underscore d) c (emit (Answer None) w) of (removed, w1) \<Rightarrow>
           (HANDLE_MENU,
            show_cart c (Some m) (emit (Answer (Some (if removed then Removed else RemoveError))) w1)))
      \<and> filter is_delete (requests (snd (handle_menu c m d w)))
          = filter is_delete (requests w) @ [DELETE_cart_products (after_underscore d)])
   \<and> (fst (get_or_create_cart c (emit (Answer None) w)) = Some k \<and> c_documentId k \<noteq> [] \<longrightarrow>
        handle_menu c m ''checkout'' w =
          start c (emit (SendMessage c OrderPlaced None)
                     (snd (remove_from_cart (c_documentId k) c
                             (snd (get_or_create_cart c (emit (Answer None) w))))))
        \<and> filter is_delete (requests (snd (handle_menu c m ''checkout'' w)))
            = filter is_delete (requests w) @ [DELETE_cart_products (c_documentId k)]
        \<and> (\<exists>a. sent (snd (handle_menu c m ''checkout'' w))
                  = sent w @ [Answer None, SendMessage c OrderPlaced None, a]))
   \<and> ((case fst (get_or_create_cart c (emit (Answer None) w)) of
          None \<Rightarrow> True | Some k \<Rightarrow> c_documentId k = []) \<longrightarrow>
        handle_menu c m ''checkout'' w
          = (HANDLE_MENU, snd (get_or_create_cart c (emit (Answer None) w)))
        \<and> filter is_delete (requests (snd (handle_menu c m ''checkout'' w)))
            = filter is_delete (requests w)
        \<and> sent (snd (handle_menu c m ''checkout'' w)) = sent w @ [Answer None])
   \<and> (startswith d ''remove_'' \<or> d = ''checkout'' \<longrightarrow> fst (handle_menu c m d w) = HANDLE_MENU)"
proof (intro conjI impI)
  assume r: "startswith d ''remove_''"
  show "handle_menu c m d w =
        (case remove_from_cart (after_underscore d) c (emit (Answer None) w) of (removed, w1) \<Rightarrow>
           (HANDLE_MENU,
            show_cart c (Some m) (emit (Answer (Some (if removed then Removed else RemoveError))) w1)))"
    using r by (rule handle_menu_remove)
  show "filter is_delete (requests (snd (handle_menu c m d w)))
          = filter is_delete (requests w) @ [DELETE_cart_products (after_underscore d)]"
    by (simp add: handle_menu_remove [OF r] case_prod_beta)
next
  assume "fst (get_or_create_cart c (emit (Answer None) w)) = Some k \<and> c_documentId k \<noteq> []"
  then have g: "get_or_create_cart c (emit (Answer None) w)
                  = (Some k, snd (get_or_create_cart c (emit (Answer None) w)))"
    and k: "c_documentId k \<noteq> []"
    by (simp_all add: prod_eq_iff)
  let ?w1 = "snd (get_or_create_cart c (emit (Answer None) w))"
  have h: "handle_menu c m ''checkout'' w =
          start c (emit (SendMessage c OrderPlaced None)
                     (snd (remove_from_cart (c_documentId k) c ?w1)))"
    using k by (subst handle_menu_checkout, subst g) simp
  then show "handle_menu c m ''checkout'' w =
          start c (emit (SendMessage c OrderPlaced None)
                     (snd (remove_from_cart (c_documentId k) c ?w1)))" .
  show "filter is_delete (requests (snd (handle_menu c m ''checkout'' w)))
            = filter is_delete (requests w) @ [DELETE_cart_products (c_documentId k)]"
    by (simp add: h)
  obtain a where "sent (snd (start c (emit (SendMessage c OrderPlaced None)
                     (snd (remove_from_cart (c_documentId k) c ?w1)))))
       = sent (emit (SendMessage c OrderPlaced None)
                     (snd (remove_from_cart (c_documentId k) c ?w1))) @ [a]"
    using start_sent by blast
  then show "\<exists>a. sent (snd (handle_menu c m ''checkout'' w))
                  = sent w @ [Answer None, SendMessage c OrderPlaced None, a]"
    by (simp add: h)
next
  assume n: "case fst (get_or_create_cart c (emit (Answer None) w)) of
          None \<Rightarrow> True | Some k \<Rightarrow> c_documentId k = []"
  show h: "handle_menu c m ''checkout'' w
          = (HANDLE_MENU, snd (get_or_create_cart c (emit (Answer None) w)))"
    using n by (simp add: handle_menu_checkout case_prod_beta split: option.splits)
  show "filter is_delete (requests (snd (handle_menu c m ''checkout'' w)))
            = filter is_delete (requests w)"
    by (simp add: h)
  show "sent (snd (handle_menu c m ''checkout'' w)) = sent w @ [Answer None]"
    by (simp add: h)
next
  assume "startswith d ''remove_'' \<or> d = ''checkout''"
  then have "d \<noteq> ''cart''"
    using remove_payload(3) by auto
  then show "fst (handle_menu c m d w) = HANDLE_MENU"
    by (simp add: fst_handle_menu)
qed

text \<open>
  When the request for the cart fails, the checkout of the menu issues no delete
  request and sends no confirmation.
\<close>

theorem menu_checkout_without_cart_counterexample:
  "fst (get_or_create_cart 7 (emit (Answer None) flaky)) = None
   \<and> requests (snd (handle_menu 7 1 ''checkout'' flaky)) = [GET_carts 7]
   \<and> sent (snd (handle_menu 7 1 ''checkout'' flaky)) = [Answer None]
   \<and> fst (handle_menu 7 1 ''checkout'' flaky) = HANDLE_MENU"
  by (simp add: model_defs Let_def)


theorem menu_remove_and_checkout_witness:
  "startswith ''remove_l1'' ''remove_''
   \<and> filter is_delete (requests (snd (handle_menu 7 1 ''remove_l1'' shop)))
       = [DELETE_cart_products ''l1'']
   \<and> fst (handle_menu 7 1 ''remove_l1'' shop) = HANDLE_MENU
   \<and> fst (get_or_create_cart 7 (emit (Answer None) shop))
       = Some \<lparr>c_documentId = ''c1'', c_telegram_id = 7\<rparr>
   \<and> filter is_delete (requests (snd (handle_menu 7 1 ''checkout'' shop)))
       = [DELETE_cart_products ''c1'']
   \<and> fst (get_or_create_cart 7 (emit (Answer None) flaky)) = None
   \<and> sent (snd (handle_menu 7 1 ''checkout'' flaky)) = [Answer None]"
proof -
  note rm = menu_remove_and_checkout
    [where d = "''remove_l1''" and c = 7 and m = 1 and w = shop
       and k = "\<lparr>c_documentId = ''c1'', c_telegram_id = 7\<rparr>"]
  note ok = menu_remove_and_checkout
    [where d = "''checkout''" and c = 7 and m = 1 and w = shop
       and k = "\<lparr>c_documentId = ''c1'', c_telegram_id = 7\<rparr>"]
  note ko = menu_remove_and_checkout
    [where d = "''checkout''" and c = 7 and m = 1 and w = flaky
       and k = "\<lparr>c_documentId = ''c1'', c_telegram_id = 7\<rparr>"]
  have p: "startswith ''remove_l1'' ''remove_''"
    by (simp add: startswith_def)
  have a: "after_underscore ''remove_l1'' = ''l1''"
    by (simp add: after_underscore_def)
  have r: "requests shop = []" "requests flaky = []" "sent flaky = []"
    by (simp_all add: shop_def flaky_def)
  have found: "fst (get_or_create_cart 7 (emit (Answer None) shop))
       = Some \<lparr>c_documentId = ''c1'', c_telegram_id = 7\<rparr>"
    by (simp add: get_or_create_cart_def http_def emit_def shop_def)
  have lost: "fst (get_or_create_cart 7 (emit (Answer None) flaky)) = None"
    by (simp add: get_or_create_cart_def http_def emit_def shop_def flaky_def)
  from rm p have "filter is_delete (requests (snd (handle_menu 7 1 ''remove_l1'' shop)))
       = filter is_delete (requests shop) @ [DELETE_cart_products (after_underscore ''remove_l1'')]"
    and s1: "fst (handle_menu 7 1 ''remove_l1'' shop) = HANDLE_MENU"
    by blast+
  then have d1: "filter is_delete (requests (snd (handle_menu 7 1 ''remove_l1'' shop)))
       = [DELETE_cart_products ''l1'']"
    by (simp add: a r)
  from ok found have "filter is_delete (requests (snd (handle_menu 7 1 ''checkout'' shop)))
       = filter is_delete (requests shop)
           @ [DELETE_cart_products (c_documentId \<lparr>c_documentId = ''c1'', c_telegram_id = 7\<rparr>)]"
    by simp
  then have d2: "filter is_delete (requests (snd (handle_menu 7 1 ''checkout'' shop)))
       = [DELETE_cart_products ''c1'']"
    by (simp add: r)
  from ko lost have "sent (snd (handle_menu 7 1 ''checkout'' flaky)) = sent flaky @ [Answer None]"
    by simp
  then have d3: "sent (snd (handle_menu 7 1 ''checkout'' flaky)) = [Answer None]"
    by (simp add: r)
  from p d1 s1 found d2 lost d3 show ?thesis by blast
qed

end
